theory Spec2Isabelle
  imports Complex_Main "HOL-Library.Multiset" "HOL-Library.Product_Lexorder"
begin

section \<open>Domain model\<close>

text \<open>
  The carrier-agnostic types of \<^verbatim>\<open>src/types\<close>. An optional field
  (\<^verbatim>\<open>f?: T\<close>) is an \<^typ>\<open>'a option\<close>. An HTTP status is an \<^typ>\<open>int\<close>.

  A JavaScript \<^verbatim>\<open>number\<close> in a quote (a charge, a billing weight, the transit
  days) comes from \<^verbatim>\<open>parseFloat\<close> or \<^verbatim>\<open>parseInt\<close> on a string of the carrier,
  or from a provider: it is a \<open>number\<close>, which is NaN, an infinity or a finite value, the
  finite values with exact arithmetic. The numbers of a request (sizes, weights, a
  declared value), which the schema reads before anything else does, and the times of
  the token manager are finite: a \<^typ>\<open>rat\<close>.
\<close>

datatype number = NaN | NegInfinity | Finite rat | Infinity

text \<open>
  What reading a member of an object literal by a computed name gives when it is not
  \<^verbatim>\<open>undefined\<close>: a value of the literal, or the member of that name which every
  object inherits from \<^verbatim>\<open>Object.prototype\<close> (a function, or the prototype itself).
\<close>

datatype 'a or_inherited = Plain 'a | Inherited string

datatype CarrierId = UPS | FEDEX | USPS | DHL

datatype ServiceLevel =
    GROUND | EXPRESS | EXPRESS_PLUS | EXPEDITED | STANDARD
  | NEXT_DAY_AIR | NEXT_DAY_AIR_EARLY | NEXT_DAY_AIR_SAVER
  | SECOND_DAY_AIR | SECOND_DAY_AIR_AM | THREE_DAY_SELECT | SAVER

datatype CarrierOperation = OP_rate | OP_label | OP_tracking | OP_address_validation

datatype DimensionUnit = IN | CM

datatype WeightUnit = LBS | KGS

datatype PackagingType = CUSTOM | LETTER | TUBE | PAK | SMALL_BOX | MEDIUM_BOX | LARGE_BOX

record Money =
  amount :: number
  currency :: string

record DeclaredValue =
  declared_amount :: rat
  declared_currency :: string

record Address =
  name :: string
  addressLines :: "string list"
  city :: string
  stateCode :: string
  postalCode :: string
  countryCode :: string
  isResidential :: "bool option"

record PackageDimensions =
  dim_length :: rat
  dim_width :: rat
  dim_height :: rat
  dim_unit :: DimensionUnit

record PackageWeight =
  weight_value :: rat
  weight_unit :: WeightUnit

record Package =
  dimensions :: PackageDimensions
  weight :: PackageWeight
  packagingType :: "PackagingType option"
  declaredValue :: "DeclaredValue option"

record RateRequest =
  origin :: Address
  destination :: Address
  packages :: "Package list"
  serviceLevel :: "ServiceLevel option"
  carriers :: "CarrierId list option"
  shipperAccountNumber :: "string option"

record Surcharge =
  surcharge_code :: string
  surcharge_description :: string
  surcharge_amount :: Money

record BillingWeight =
  billing_value :: number
  billing_unit :: string

record RateQuote =
  quote_carrier :: CarrierId
  serviceCode :: string
  serviceName :: "string or_inherited"
  quote_serviceLevel :: "ServiceLevel or_inherited"
  totalCharges :: Money
  baseCharges :: Money
  surcharges :: "Surcharge list"
  transitDays :: "number option"
  estimatedDelivery :: "string option"
  guaranteed :: bool
  billingWeight :: "BillingWeight option"

text \<open>
  \<^verbatim>\<open>RateResponse\<close>: the quotes and the carriers queried. The field
  \<^verbatim>\<open>requestedAt\<close> is the wall-clock time of the call and is left out.
\<close>

record RateResponse =
  quotes :: "RateQuote list"
  response_carriers :: "CarrierId list"

section \<open>Values of the runtime\<close>

text \<open>
  A decoded JSON body, as \<^verbatim>\<open>axios\<close> hands it over. An object lists its members
  in the order of the text; a member is looked up by name.
\<close>

datatype json =
    JNull
  | JBool bool
  | JNum rat
  | JStr string
  | JArr "json list"
  | JObj "(string \<times> json) list"

text \<open>
  The built-in conversions between strings and numbers belong to the JavaScript runtime
  and are taken as parameters. \<^verbatim>\<open>parseFloat\<close> and \<^verbatim>\<open>parseInt\<close> give NaN for a
  string that does not start with a numeral. \<^verbatim>\<open>Number\<close> is applied to the decimal
  numerals of the token response and of the \<^verbatim>\<open>retry-after\<close> header, and string
  conversion to finite numbers.
\<close>

record runtime =
  parseFloat :: "string \<Rightarrow> number"
  parseInt :: "string \<Rightarrow> number"
  Number :: "string \<Rightarrow> rat"
  numberToString :: "rat \<Rightarrow> string"

text \<open>
  Arithmetic and comparison on numbers, as far as the code uses them: the difference,
  \<^verbatim>\<open>x > 0\<close> and \<^verbatim>\<open>a <= b\<close>. A comparison with NaN is false. The difference of
  two finite values has the sign of the exact difference.
\<close>

fun js_minus :: "number \<Rightarrow> number \<Rightarrow> number" where
  "js_minus NaN b = NaN"
| "js_minus a NaN = NaN"
| "js_minus (Finite a) (Finite b) = Finite (a - b)"
| "js_minus (Finite a) Infinity = NegInfinity"
| "js_minus (Finite a) NegInfinity = Infinity"
| "js_minus Infinity Infinity = NaN"
| "js_minus Infinity b = Infinity"
| "js_minus NegInfinity NegInfinity = NaN"
| "js_minus NegInfinity b = NegInfinity"

fun js_positive :: "number \<Rightarrow> bool" where
  "js_positive (Finite r) = (r > 0)"
| "js_positive Infinity = True"
| "js_positive _ = False"


text \<open>
  The names of the members of \<^verbatim>\<open>Object.prototype\<close>, and the reading of
  \<^verbatim>\<open>table[name]\<close> in a table written as an object literal.
\<close>

definition Object_prototype_members :: "string list" where
  "Object_prototype_members =
     [''constructor'', ''toString'', ''toLocaleString'', ''valueOf'', ''hasOwnProperty'',
      ''isPrototypeOf'', ''propertyIsEnumerable'', ''__proto__'', ''__defineGetter__'',
      ''__defineSetter__'', ''__lookupGetter__'', ''__lookupSetter__'']"

definition object_get :: "(string \<times> 'a) list \<Rightarrow> string \<Rightarrow> 'a or_inherited option" where
  "object_get table k =
     (case map_of table k of
        Some v \<Rightarrow> Some (Plain v)
      | None \<Rightarrow> if k \<in> set Object_prototype_members then Some (Inherited k) else None)"

fun join :: "string \<Rightarrow> string list \<Rightarrow> string" where
  "join sep [] = []"
| "join sep [x] = x"
| "join sep (x # y # ys) = x @ sep @ join sep (y # ys)"

section \<open>Errors\<close>

datatype CarrierErrorCode =
    AUTH_FAILED | AUTH_TOKEN_EXPIRED
  | VALIDATION_ERROR
  | NETWORK_ERROR | TIMEOUT | RATE_LIMITED
  | CARRIER_API_ERROR | CARRIER_UNAVAILABLE | MALFORMED_RESPONSE
  | BAD_REQUEST | NOT_FOUND | FORBIDDEN
  | CONFIGURATION_ERROR | UNKNOWN

text \<open>
  \<^verbatim>\<open>CarrierErrorDetails\<close>, the payload of a \<^verbatim>\<open>CarrierError\<close>. The field
  \<^verbatim>\<open>timestamp\<close> is the wall-clock time of construction and is left out.
\<close>

record CarrierErrorDetails =
  code :: CarrierErrorCode
  message :: string
  carrier :: "CarrierId option"
  httpStatus :: "int option"
  carrierErrorCode :: "string option"
  carrierErrorMessage :: "string option"
  retryable :: bool
  retryAfterMs :: "rat option"

record AxiosResponse =
  status :: int
  data :: json
  retry_after :: "string option"

text \<open>
  What a rejected promise or a \<^verbatim>\<open>throw\<close> can carry: a \<^verbatim>\<open>CarrierError\<close>, an
  axios error (its \<^verbatim>\<open>code\<close>, its \<^verbatim>\<open>message\<close>, its \<^verbatim>\<open>response\<close> when one
  was received), another \<^verbatim>\<open>Error\<close> with its message, or a value that is no
  \<^verbatim>\<open>Error\<close> and has no message.
\<close>

datatype thrown =
    CarrierError CarrierErrorDetails
  | AxiosError "string option" string "AxiosResponse option"
  | Error string
  | Thrown_value

fun CarrierId_name :: "CarrierId \<Rightarrow> string" where
  "CarrierId_name UPS = ''UPS''"
| "CarrierId_name FEDEX = ''FEDEX''"
| "CarrierId_name USPS = ''USPS''"
| "CarrierId_name DHL = ''DHL''"

definition authError :: "CarrierId \<Rightarrow> string \<Rightarrow> int option \<Rightarrow> CarrierErrorDetails" where
  "authError c msg st =
     \<lparr> code = AUTH_FAILED,
       message = ''['' @ CarrierId_name c @ ''] Authentication failed: '' @ msg,
       carrier = Some c, httpStatus = st,
       carrierErrorCode = None, carrierErrorMessage = None,
       retryable = False, retryAfterMs = None \<rparr>"

definition validationError :: "string \<Rightarrow> CarrierId option \<Rightarrow> CarrierErrorDetails" where
  "validationError msg c =
     \<lparr> code = VALIDATION_ERROR,
       message = ''Validation error: '' @ msg,
       carrier = c, httpStatus = None,
       carrierErrorCode = None, carrierErrorMessage = None,
       retryable = False, retryAfterMs = None \<rparr>"

definition networkError :: "CarrierId \<Rightarrow> string \<Rightarrow> CarrierErrorDetails" where
  "networkError c msg =
     \<lparr> code = NETWORK_ERROR,
       message = ''['' @ CarrierId_name c @ ''] Network error: '' @ msg,
       carrier = Some c, httpStatus = None,
       carrierErrorCode = None, carrierErrorMessage = None,
       retryable = True, retryAfterMs = None \<rparr>"

definition timeoutError :: "runtime \<Rightarrow> CarrierId \<Rightarrow> rat \<Rightarrow> CarrierErrorDetails" where
  "timeoutError rt c timeoutMs =
     \<lparr> code = TIMEOUT,
       message = ''['' @ CarrierId_name c @ ''] Request timed out after ''
                 @ numberToString rt timeoutMs @ ''ms'',
       carrier = Some c, httpStatus = None,
       carrierErrorCode = None, carrierErrorMessage = None,
       retryable = True, retryAfterMs = None \<rparr>"

definition rateLimitError :: "CarrierId \<Rightarrow> rat option \<Rightarrow> CarrierErrorDetails" where
  "rateLimitError c after =
     \<lparr> code = RATE_LIMITED,
       message = ''['' @ CarrierId_name c @ ''] Rate limit exceeded'',
       carrier = Some c, httpStatus = Some 429,
       carrierErrorCode = None, carrierErrorMessage = None,
       retryable = True, retryAfterMs = after \<rparr>"

definition carrierApiError ::
  "runtime \<Rightarrow> CarrierId \<Rightarrow> string \<Rightarrow> int \<Rightarrow> string option \<Rightarrow> string option \<Rightarrow> CarrierErrorDetails" where
  "carrierApiError rt c msg st cec cem =
     \<lparr> code = CARRIER_API_ERROR,
       message = ''['' @ CarrierId_name c @ ''] API error (HTTP ''
                 @ numberToString rt (of_int st) @ ''): '' @ msg,
       carrier = Some c, httpStatus = Some st,
       carrierErrorCode = cec, carrierErrorMessage = cem,
       retryable = (st \<ge> 500), retryAfterMs = None \<rparr>"

definition malformedResponseError :: "CarrierId \<Rightarrow> string \<Rightarrow> CarrierErrorDetails" where
  "malformedResponseError c msg =
     \<lparr> code = MALFORMED_RESPONSE,
       message = ''['' @ CarrierId_name c @ ''] Malformed response: '' @ msg,
       carrier = Some c, httpStatus = None,
       carrierErrorCode = None, carrierErrorMessage = None,
       retryable = False, retryAfterMs = None \<rparr>"

definition configurationError :: "string \<Rightarrow> CarrierErrorDetails" where
  "configurationError msg =
     \<lparr> code = CONFIGURATION_ERROR,
       message = ''Configuration error: '' @ msg,
       carrier = None, httpStatus = None,
       carrierErrorCode = None, carrierErrorMessage = None,
       retryable = False, retryAfterMs = None \<rparr>"

section \<open>Request validation\<close>

text \<open>
  \<^verbatim>\<open>RateRequestSchema\<close> of \<^verbatim>\<open>src/validation/schemas.ts\<close>. Parsing a request yields
  the list of issues, each a path and a message, in the order zod reports them: the
  members of an object in the order of the schema, the size checks of an array before
  its elements. The messages that the schema does not give are zod's built-in ones.
  The enumerations and the presence and types of the fields are fixed by the types of the
  model. The length of a string is its number of characters.
\<close>

type_synonym zod_issue = "string list \<times> string"

definition check :: "bool \<Rightarrow> string list \<Rightarrow> string \<Rightarrow> zod_issue list" where
  "check ok path msg = (if ok then [] else [(path, msg)])"

definition string_min_default :: "nat \<Rightarrow> runtime \<Rightarrow> string" where
  "string_min_default n rt =
     ''String must contain at least '' @ numberToString rt (of_nat n) @ '' character(s)''"

definition string_max_default :: "nat \<Rightarrow> runtime \<Rightarrow> string" where
  "string_max_default n rt =
     ''String must contain at most '' @ numberToString rt (of_nat n) @ '' character(s)''"

definition number_nonnegative_default :: "runtime \<Rightarrow> string" where
  "number_nonnegative_default rt =
     ''Number must be greater than or equal to '' @ numberToString rt 0"

definition indexed :: "'a list \<Rightarrow> (nat \<times> 'a) list" where
  "indexed xs = zip [0 ..< length xs] xs"

definition AddressSchema :: "runtime \<Rightarrow> string list \<Rightarrow> Address \<Rightarrow> zod_issue list" where
  "AddressSchema rt p a =
     check (length (name a) \<ge> 1) (p @ [''name'']) ''Name is required''
   @ check (length (addressLines a) \<ge> 1) (p @ [''addressLines''])
       ''At least one address line is required''
   @ check (length (addressLines a) \<le> 3) (p @ [''addressLines'']) ''Maximum 3 address lines''
   @ concat (map (\<lambda>(i, l). check (length l \<ge> 1)
                    (p @ [''addressLines'', numberToString rt (of_nat i)])
                    (string_min_default 1 rt))
               (indexed (addressLines a)))
   @ check (length (city a) \<ge> 1) (p @ [''city'']) ''City is required''
   @ check (length (stateCode a) \<ge> 2) (p @ [''stateCode''])
       ''State code must be at least 2 characters''
   @ check (length (stateCode a) \<le> 5) (p @ [''stateCode'']) (string_max_default 5 rt)
   @ check (length (postalCode a) \<ge> 1) (p @ [''postalCode'']) ''Postal code is required''
   @ check (length (countryCode a) = 2) (p @ [''countryCode''])
       ''Country code must be ISO 3166-1 alpha-2 (2 characters)''"

definition PackageDimensionsSchema :: "string list \<Rightarrow> PackageDimensions \<Rightarrow> zod_issue list" where
  "PackageDimensionsSchema p d =
     check (dim_length d > 0) (p @ [''length'']) ''Length must be positive''
   @ check (dim_width d > 0) (p @ [''width'']) ''Width must be positive''
   @ check (dim_height d > 0) (p @ [''height'']) ''Height must be positive''"

definition PackageWeightSchema :: "string list \<Rightarrow> PackageWeight \<Rightarrow> zod_issue list" where
  "PackageWeightSchema p w =
     check (weight_value w > 0) (p @ [''value'']) ''Weight must be positive''"

definition DeclaredValueSchema :: "runtime \<Rightarrow> string list \<Rightarrow> DeclaredValue \<Rightarrow> zod_issue list" where
  "DeclaredValueSchema rt p v =
     check (declared_amount v \<ge> 0) (p @ [''amount'']) (number_nonnegative_default rt)
   @ check (length (declared_currency v) = 3) (p @ [''currency''])
       ''Currency must be ISO 4217 (3 characters)''"

definition PackageSchema :: "runtime \<Rightarrow> string list \<Rightarrow> Package \<Rightarrow> zod_issue list" where
  "PackageSchema rt p k =
     PackageDimensionsSchema (p @ [''dimensions'']) (dimensions k)
   @ PackageWeightSchema (p @ [''weight'']) (weight k)
   @ (case declaredValue k of
        None \<Rightarrow> []
      | Some v \<Rightarrow> DeclaredValueSchema rt (p @ [''declaredValue'']) v)"

definition RateRequestSchema :: "runtime \<Rightarrow> RateRequest \<Rightarrow> zod_issue list" where
  "RateRequestSchema rt r =
     AddressSchema rt [''origin''] (origin r)
   @ AddressSchema rt [''destination''] (destination r)
   @ check (length (packages r) \<ge> 1) [''packages''] ''At least one package is required''
   @ check (length (packages r) \<le> 50) [''packages''] ''Maximum 50 packages per shipment''
   @ concat (map (\<lambda>(i, k). PackageSchema rt [''packages'', numberToString rt (of_nat i)] k)
               (indexed (packages r)))"

text \<open>
  \<^verbatim>\<open>RateShoppingService.validateRequest\<close>: a parse with issues raises one
  validation error whose message lists them.
\<close>

definition validateRequest :: "runtime \<Rightarrow> RateRequest \<Rightarrow> thrown + unit" where
  "validateRequest rt request =
     (case RateRequestSchema rt request of
        [] \<Rightarrow> Inr ()
      | issues \<Rightarrow>
          Inl (CarrierError (validationError
                 (join ''; '' (map (\<lambda>(path, msg). join ''.'' path @ '': '' @ msg) issues))
                 None)))"

section \<open>Carrier registry\<close>

text \<open>
  A provider's \<^verbatim>\<open>getRates\<close> is the only way from the service to the network.
  It is a function of the request and of the state of the world \<^typ>\<open>'w\<close> outside the
  service (the carrier's server, the provider's token cache): it returns the quotes or
  what it rejected with, and the world after the call.
\<close>

record 'w CarrierProvider =
  carrierId :: CarrierId
  carrierName :: string
  supportedOperations :: "CarrierOperation list"
  getRates :: "RateRequest \<Rightarrow> 'w \<Rightarrow> (thrown + RateQuote list) \<times> 'w"

text \<open>
  \<^verbatim>\<open>CarrierRegistry.carriers\<close> is a \<^verbatim>\<open>Map\<close>, which iterates in insertion order:
  an association list, extended at the end.
\<close>

type_synonym 'w CarrierRegistry = "(CarrierId \<times> 'w CarrierProvider) list"

definition has :: "'w CarrierRegistry \<Rightarrow> CarrierId \<Rightarrow> bool" where
  "has registry c = (map_of registry c \<noteq> None)"

definition register :: "'w CarrierRegistry \<Rightarrow> 'w CarrierProvider \<Rightarrow> thrown + 'w CarrierRegistry" where
  "register registry provider =
     (if has registry (carrierId provider)
      then Inl (CarrierError
             \<lparr> code = CONFIGURATION_ERROR,
               message = ''Carrier '' @ CarrierId_name (carrierId provider)
                         @ '' is already registered'',
               carrier = None, httpStatus = None,
               carrierErrorCode = None, carrierErrorMessage = None,
               retryable = False, retryAfterMs = None \<rparr>)
      else Inr (registry @ [(carrierId provider, provider)]))"

definition get :: "'w CarrierRegistry \<Rightarrow> CarrierId \<Rightarrow> thrown + 'w CarrierProvider" where
  "get registry c =
     (case map_of registry c of
        None \<Rightarrow>
          Inl (CarrierError
             \<lparr> code = CARRIER_UNAVAILABLE,
               message = ''Carrier '' @ CarrierId_name c @ '' is not registered'',
               carrier = Some c, httpStatus = None,
               carrierErrorCode = None, carrierErrorMessage = None,
               retryable = False, retryAfterMs = None \<rparr>)
      | Some provider \<Rightarrow> Inr provider)"

definition getAll :: "'w CarrierRegistry \<Rightarrow> 'w CarrierProvider list" where
  "getAll registry = map snd registry"

definition getByOperation :: "'w CarrierRegistry \<Rightarrow> CarrierOperation \<Rightarrow> 'w CarrierProvider list" where
  "getByOperation registry operation =
     filter (\<lambda>c. operation \<in> set (supportedOperations c)) (getAll registry)"

definition listCarrierIds :: "'w CarrierRegistry \<Rightarrow> CarrierId list" where
  "listCarrierIds registry = map fst registry"

section \<open>Sorting\<close>

text \<open>
  \<^verbatim>\<open>Array.prototype.sort\<close> with a comparator: a stable sort, here by insertion.
  An element goes before the first one it does not compare greater than, and the
  elements are inserted from the last to the first, so that of two elements that
  compare equal the earlier stays in front. The sort reads a comparator result that is
  NaN as zero. Where the comparator is not consistent (it is not when an amount is NaN)
  the language leaves the resulting order to the implementation; the insertion is then
  one such order.
\<close>

fun not_positive :: "number \<Rightarrow> bool" where
  "not_positive NaN = True"
| "not_positive NegInfinity = True"
| "not_positive (Finite r) = (r \<le> 0)"
| "not_positive Infinity = False"

fun sort_insert :: "('a \<Rightarrow> 'a \<Rightarrow> number) \<Rightarrow> 'a \<Rightarrow> 'a list \<Rightarrow> 'a list" where
  "sort_insert cmp x [] = [x]"
| "sort_insert cmp x (y # ys) =
     (if not_positive (cmp x y) then x # y # ys else y # sort_insert cmp x ys)"

definition Array_sort :: "('a \<Rightarrow> 'a \<Rightarrow> number) \<Rightarrow> 'a list \<Rightarrow> 'a list" where
  "Array_sort cmp xs = foldr (sort_insert cmp) xs []"

definition byTotalCharges :: "RateQuote \<Rightarrow> RateQuote \<Rightarrow> number" where
  "byTotalCharges a b = js_minus (amount (totalCharges a)) (amount (totalCharges b))"

section \<open>Rate shopping service\<close>

definition resolveCarriers :: "'w CarrierRegistry \<Rightarrow> CarrierId list option \<Rightarrow> CarrierId list" where
  "resolveCarriers registry requestedCarriers =
     (case requestedCarriers of
        Some cs \<Rightarrow>
          if length cs > 0 then cs
          else map carrierId (getByOperation registry OP_rate)
      | None \<Rightarrow> map carrierId (getByOperation registry OP_rate))"

text \<open>
  The callback that \<^verbatim>\<open>getQuotes\<close> maps over the carriers: look the provider up and
  call its \<^verbatim>\<open>getRates\<close>. A failed lookup rejects without a call. The third component
  is the log of the providers whose \<^verbatim>\<open>getRates\<close> was called.
\<close>

definition queryCarrier ::
  "'w CarrierRegistry \<Rightarrow> RateRequest \<Rightarrow> CarrierId \<Rightarrow> 'w \<times> CarrierId list
     \<Rightarrow> (thrown + RateQuote list) \<times> 'w \<times> CarrierId list" where
  "queryCarrier registry request c = (\<lambda>(w, called).
     case get registry c of
       Inl e \<Rightarrow> (Inl e, w, called)
     | Inr provider \<Rightarrow>
         (let (r, w') = getRates provider request w in (r, w', called @ [c])))"

text \<open>
  \<^verbatim>\<open>Promise.allSettled\<close> over the carriers. The calls start in the order of the
  list; each is run to its end before the next starts, which fixes one of the orders
  in which the runtime may complete them.
\<close>

fun allSettled ::
  "'w CarrierRegistry \<Rightarrow> RateRequest \<Rightarrow> CarrierId list \<Rightarrow> 'w \<times> CarrierId list
     \<Rightarrow> (thrown + RateQuote list) list \<times> 'w \<times> CarrierId list" where
  "allSettled registry request [] wc = ([], wc)"
| "allSettled registry request (c # cs) wc =
     (let (r, wc') = queryCarrier registry request c wc;
          (rs, wc'') = allSettled registry request cs wc'
      in (r # rs, wc''))"

text \<open>
  The message of what was thrown, where it has one (\<^verbatim>\<open>reason?.message\<close>).
\<close>

fun thrown_message :: "thrown \<Rightarrow> string option" where
  "thrown_message (CarrierError d) = Some (message d)"
| "thrown_message (AxiosError c m r) = Some m"
| "thrown_message (Error m) = Some m"
| "thrown_message Thrown_value = None"

definition toCarrierError :: "CarrierId \<Rightarrow> thrown \<Rightarrow> CarrierErrorDetails" where
  "toCarrierError c reason =
     (case reason of
        CarrierError d \<Rightarrow> d
      | _ \<Rightarrow>
          \<lparr> code = UNKNOWN,
            message = ''Carrier '' @ CarrierId_name c @ '' failed: ''
                      @ (case thrown_message reason of Some m \<Rightarrow> m | None \<Rightarrow> ''Unknown error''),
            carrier = Some c, httpStatus = None,
            carrierErrorCode = None, carrierErrorMessage = None,
            retryable = False, retryAfterMs = None \<rparr>)"

text \<open>
  The \<^verbatim>\<open>forEach\<close> over the settled results: the quotes of the fulfilled ones,
  concatenated, and the errors of the rejected ones, each in the order of the carriers.
\<close>

fun collect ::
  "(CarrierId \<times> (thrown + RateQuote list)) list \<Rightarrow> RateQuote list \<times> CarrierErrorDetails list" where
  "collect [] = ([], [])"
| "collect ((c, Inr qs) # rest) = (let (allQuotes, errors) = collect rest in (qs @ allQuotes, errors))"
| "collect ((c, Inl reason) # rest) =
     (let (allQuotes, errors) = collect rest in (allQuotes, toCarrierError c reason # errors))"

definition getQuotes ::
  "runtime \<Rightarrow> 'w CarrierRegistry \<Rightarrow> RateRequest \<Rightarrow> 'w
     \<Rightarrow> (thrown + RateResponse) \<times> 'w \<times> CarrierId list" where
  "getQuotes rt registry request w =
     (case validateRequest rt request of
        Inl e \<Rightarrow> (Inl e, w, [])
      | Inr _ \<Rightarrow>
          (let cs = resolveCarriers registry (carriers request);
               (results, w', called) = allSettled registry request cs (w, []);
               (allQuotes, errors) = collect (zip cs results)
           in case (allQuotes, errors) of
                ([], e # _) \<Rightarrow> (Inl (CarrierError e), w', called)
              | _ \<Rightarrow>
                  (Inr \<lparr> quotes = Array_sort byTotalCharges allQuotes,
                         response_carriers = cs \<rparr>, w', called)))"

section \<open>UPS wire format\<close>

text \<open>
  The shapes of \<^verbatim>\<open>carriers/ups/rating/types.ts\<close> that the mapper writes or reads.
  A field of the response that the mapper never reads is left out. A field of type
  \<^verbatim>\<open>T | T[]\<close> is a \<^verbatim>\<open>one_or_many\<close>.
\<close>

datatype 'a one_or_many = One 'a | Many "'a list"

record UpsUnitOfMeasurement =
  uom_Code :: string
  uom_Description :: "string option"

record UpsAddress =
  AddressLine :: "string list"
  City :: string
  StateProvinceCode :: string
  PostalCode :: string
  CountryCode :: string
  ResidentialAddressIndicator :: "string option"

record UpsParty =
  Name :: string
  ShipperNumber :: "string option"
  party_Address :: UpsAddress

record UpsService =
  Code :: string
  Description :: "string option"

record UpsCharges =
  CurrencyCode :: string
  MonetaryValue :: string

record UpsDimensions =
  dimensions_UnitOfMeasurement :: UpsUnitOfMeasurement
  Length :: string
  Width :: string
  Height :: string

record UpsWeight =
  weight_UnitOfMeasurement :: UpsUnitOfMeasurement
  Weight :: string

record UpsPackage =
  PackagingType :: UpsService
  Dimensions :: UpsDimensions
  PackageWeight :: UpsWeight
  PackageServiceOptions_DeclaredValue :: "UpsCharges option"

record UpsShipmentCharge =
  charge_Type :: string
  BillShipper_AccountNumber :: string

record UpsRateRequest =
  RequestOption :: string
  TransactionReference_CustomerContext :: string
  Shipper :: UpsParty
  ShipTo :: UpsParty
  ShipFrom :: UpsParty
  request_Service :: "UpsService option"
  request_Package :: "UpsPackage list"
  PaymentDetails_ShipmentCharge :: "UpsShipmentCharge list"

record UpsItemizedCharge =
  item_Code :: string
  item_Description :: "string option"
  item_CurrencyCode :: string
  item_MonetaryValue :: string
  SubType :: "string option"

record UpsGuaranteedDelivery =
  BusinessDaysInTransit :: "string option"
  DeliveryByTime :: "string option"

record UpsArrival =
  arrival_Date :: "string option"
  arrival_Time :: "string option"

record UpsEstimatedArrival =
  Arrival :: "UpsArrival option"
  arrival_BusinessDaysInTransit :: "string option"

record UpsServiceSummary =
  EstimatedArrival :: "UpsEstimatedArrival option"

record UpsTimeInTransit =
  ServiceSummary :: "UpsServiceSummary option"

record UpsRatedShipment =
  Service :: UpsService
  BillingWeight :: UpsWeight
  TransportationCharges :: UpsCharges
  ServiceOptionsCharges :: UpsCharges
  TotalCharges :: UpsCharges
  GuaranteedDelivery :: "UpsGuaranteedDelivery option"
  ItemizedCharges :: "UpsItemizedCharge one_or_many option"
  TimeInTransit :: "UpsTimeInTransit option"

text \<open>
  The decoded body of a rating call. The response as a whole, its \<^verbatim>\<open>RateResponse\<close>
  member and the \<^verbatim>\<open>RatedShipment\<close> member of that may each be missing at run time.
\<close>

record UpsRateResponseBody =
  RatedShipment :: "UpsRatedShipment one_or_many option"

record UpsRateResponse =
  RateResponse :: "UpsRateResponseBody option"

section \<open>UPS rating mapper\<close>

definition UPS_SERVICE_CODE_TO_LEVEL :: "(string \<times> ServiceLevel) list" where
  "UPS_SERVICE_CODE_TO_LEVEL =
     [(''01'', NEXT_DAY_AIR), (''02'', SECOND_DAY_AIR), (''03'', GROUND),
      (''07'', EXPRESS), (''08'', EXPEDITED), (''11'', STANDARD),
      (''12'', THREE_DAY_SELECT), (''13'', NEXT_DAY_AIR_SAVER), (''14'', NEXT_DAY_AIR_EARLY),
      (''54'', EXPRESS_PLUS), (''59'', SECOND_DAY_AIR_AM), (''65'', SAVER)]"

definition SERVICE_LEVEL_TO_UPS_CODE :: "(ServiceLevel \<times> string) list" where
  "SERVICE_LEVEL_TO_UPS_CODE =
     [(NEXT_DAY_AIR, ''01''), (SECOND_DAY_AIR, ''02''), (GROUND, ''03''),
      (EXPRESS, ''07''), (EXPEDITED, ''08''), (STANDARD, ''11''),
      (THREE_DAY_SELECT, ''12''), (NEXT_DAY_AIR_SAVER, ''13''), (NEXT_DAY_AIR_EARLY, ''14''),
      (EXPRESS_PLUS, ''54''), (SECOND_DAY_AIR_AM, ''59''), (SAVER, ''65'')]"

definition UPS_SERVICE_NAMES :: "(string \<times> string) list" where
  "UPS_SERVICE_NAMES =
     [(''01'', ''UPS Next Day Air''), (''02'', ''UPS 2nd Day Air''), (''03'', ''UPS Ground''),
      (''07'', ''UPS Worldwide Express''), (''08'', ''UPS Worldwide Expedited''),
      (''11'', ''UPS Standard''), (''12'', ''UPS 3 Day Select''),
      (''13'', ''UPS Next Day Air Saver''), (''14'', ''UPS Next Day Air Early''),
      (''54'', ''UPS Worldwide Express Plus''), (''59'', ''UPS 2nd Day Air A.M.''),
      (''65'', ''UPS Worldwide Saver'')]"

fun PACKAGING_TYPE_TO_UPS :: "PackagingType \<Rightarrow> string" where
  "PACKAGING_TYPE_TO_UPS CUSTOM = ''02''"
| "PACKAGING_TYPE_TO_UPS LETTER = ''01''"
| "PACKAGING_TYPE_TO_UPS TUBE = ''03''"
| "PACKAGING_TYPE_TO_UPS PAK = ''04''"
| "PACKAGING_TYPE_TO_UPS SMALL_BOX = ''21''"
| "PACKAGING_TYPE_TO_UPS MEDIUM_BOX = ''22''"
| "PACKAGING_TYPE_TO_UPS LARGE_BOX = ''25''"

fun PackagingType_name :: "PackagingType \<Rightarrow> string" where
  "PackagingType_name CUSTOM = ''CUSTOM''"
| "PackagingType_name LETTER = ''LETTER''"
| "PackagingType_name TUBE = ''TUBE''"
| "PackagingType_name PAK = ''PAK''"
| "PackagingType_name SMALL_BOX = ''SMALL_BOX''"
| "PackagingType_name MEDIUM_BOX = ''MEDIUM_BOX''"
| "PackagingType_name LARGE_BOX = ''LARGE_BOX''"

fun DimensionUnit_name :: "DimensionUnit \<Rightarrow> string" where
  "DimensionUnit_name IN = ''IN''"
| "DimensionUnit_name CM = ''CM''"

fun WeightUnit_name :: "WeightUnit \<Rightarrow> string" where
  "WeightUnit_name LBS = ''LBS''"
| "WeightUnit_name KGS = ''KGS''"

definition mapToUpsAddress :: "Address \<Rightarrow> UpsAddress" where
  "mapToUpsAddress address =
     \<lparr> AddressLine = addressLines address,
       City = city address,
       StateProvinceCode = stateCode address,
       PostalCode = postalCode address,
       CountryCode = countryCode address,
       ResidentialAddressIndicator =
         (if isResidential address = Some True then Some ''Y'' else None) \<rparr>"

definition mapToUpsPackage :: "runtime \<Rightarrow> Package \<Rightarrow> UpsPackage" where
  "mapToUpsPackage rt pkg =
     \<lparr> PackagingType =
         \<lparr> Code = (case packagingType pkg of Some t \<Rightarrow> PACKAGING_TYPE_TO_UPS t | None \<Rightarrow> ''02''),
           Description = Some (case packagingType pkg of
                                 Some t \<Rightarrow> PackagingType_name t
                               | None \<Rightarrow> ''Customer Supplied Package'') \<rparr>,
       Dimensions =
         \<lparr> dimensions_UnitOfMeasurement =
             \<lparr> uom_Code = DimensionUnit_name (dim_unit (dimensions pkg)),
               uom_Description =
                 Some (if dim_unit (dimensions pkg) = IN then ''Inches'' else ''Centimeters'') \<rparr>,
           Length = numberToString rt (dim_length (dimensions pkg)),
           Width = numberToString rt (dim_width (dimensions pkg)),
           Height = numberToString rt (dim_height (dimensions pkg)) \<rparr>,
       PackageWeight =
         \<lparr> weight_UnitOfMeasurement =
             \<lparr> uom_Code = WeightUnit_name (weight_unit (weight pkg)),
               uom_Description =
                 Some (if weight_unit (weight pkg) = LBS then ''Pounds'' else ''Kilograms'') \<rparr>,
           Weight = numberToString rt (weight_value (weight pkg)) \<rparr>,
       PackageServiceOptions_DeclaredValue =
         (case declaredValue pkg of
            None \<Rightarrow> None
          | Some v \<Rightarrow> Some \<lparr> CurrencyCode = declared_currency v,
                             MonetaryValue = numberToString rt (declared_amount v) \<rparr>) \<rparr>"

definition mapToUpsRateRequest :: "runtime \<Rightarrow> RateRequest \<Rightarrow> string \<Rightarrow> UpsRateRequest" where
  "mapToUpsRateRequest rt request accountNumber =
     (let account = (case shipperAccountNumber request of Some n \<Rightarrow> n | None \<Rightarrow> accountNumber)
      in \<lparr> RequestOption = (if serviceLevel request \<noteq> None then ''Rate'' else ''Shop''),
            TransactionReference_CustomerContext = ''CybershipCIS Rating'',
            Shipper = \<lparr> Name = name (origin request), ShipperNumber = Some account,
                        party_Address = mapToUpsAddress (origin request) \<rparr>,
            ShipTo = \<lparr> Name = name (destination request), ShipperNumber = None,
                       party_Address = mapToUpsAddress (destination request) \<rparr>,
            ShipFrom = \<lparr> Name = name (origin request), ShipperNumber = None,
                         party_Address = mapToUpsAddress (origin request) \<rparr>,
            request_Service =
              (case serviceLevel request of
                 None \<Rightarrow> None
               | Some l \<Rightarrow>
                   (case map_of SERVICE_LEVEL_TO_UPS_CODE l of
                      None \<Rightarrow> None
                    | Some svc \<Rightarrow>
                        Some \<lparr> Code = svc,
                               Description = map_of UPS_SERVICE_NAMES svc \<rparr>)),
            request_Package = map (mapToUpsPackage rt) (packages request),
            PaymentDetails_ShipmentCharge =
              [\<lparr> charge_Type = ''01'', BillShipper_AccountNumber = account \<rparr>] \<rparr>)"

definition mapUpsCharges :: "runtime \<Rightarrow> UpsCharges \<Rightarrow> Money" where
  "mapUpsCharges rt charges =
     \<lparr> amount = parseFloat rt (MonetaryValue charges), currency = CurrencyCode charges \<rparr>"

definition toArray :: "'a one_or_many \<Rightarrow> 'a list" where
  "toArray v = (case v of Many xs \<Rightarrow> xs | One x \<Rightarrow> [x])"

definition mapUpsSurcharges :: "runtime \<Rightarrow> UpsItemizedCharge one_or_many option \<Rightarrow> Surcharge list" where
  "mapUpsSurcharges rt itemized =
     (case itemized of
        None \<Rightarrow> []
      | Some i \<Rightarrow>
          map (\<lambda>charge.
                 \<lparr> surcharge_code = item_Code charge,
                   surcharge_description =
                     (case item_Description charge of
                        Some d \<Rightarrow> d
                      | None \<Rightarrow> ''Surcharge '' @ item_Code charge),
                   surcharge_amount =
                     \<lparr> amount = parseFloat rt (item_MonetaryValue charge),
                       currency = item_CurrencyCode charge \<rparr> \<rparr>)
              (filter (\<lambda>c. js_positive (parseFloat rt (item_MonetaryValue c))) (toArray i)))"

text \<open>A string is truthy when it is present and not empty.\<close>

definition truthy :: "string option \<Rightarrow> bool" where
  "truthy s = (case s of None \<Rightarrow> False | Some v \<Rightarrow> v \<noteq> [])"

definition timeInTransit_arrival :: "UpsRatedShipment \<Rightarrow> UpsEstimatedArrival option" where
  "timeInTransit_arrival rated =
     (case TimeInTransit rated of
        None \<Rightarrow> None
      | Some t \<Rightarrow> (case ServiceSummary t of None \<Rightarrow> None | Some s \<Rightarrow> EstimatedArrival s))"

definition parseTransitDays :: "runtime \<Rightarrow> UpsRatedShipment \<Rightarrow> number option" where
  "parseTransitDays rt rated =
     (let guaranteedDays =
            (case GuaranteedDelivery rated of None \<Rightarrow> None | Some g \<Rightarrow> BusinessDaysInTransit g);
          summaryDays =
            (case timeInTransit_arrival rated of
               None \<Rightarrow> None
             | Some a \<Rightarrow> arrival_BusinessDaysInTransit a)
      in if truthy guaranteedDays then map_option (parseInt rt) guaranteedDays
         else if truthy summaryDays then map_option (parseInt rt) summaryDays
         else None)"

definition parseEstimatedDelivery :: "UpsRatedShipment \<Rightarrow> string option" where
  "parseEstimatedDelivery rated =
     (let date =
            (case timeInTransit_arrival rated of
               None \<Rightarrow> None
             | Some a \<Rightarrow> (case Arrival a of None \<Rightarrow> None | Some d \<Rightarrow> arrival_Date d))
      in if truthy date then date else None)"

definition mapFromUpsRatedShipment :: "runtime \<Rightarrow> UpsRatedShipment \<Rightarrow> RateQuote" where
  "mapFromUpsRatedShipment rt rated =
     (let svc = Code (Service rated)
      in \<lparr> quote_carrier = UPS,
            serviceCode = svc,
            serviceName =
              (case object_get UPS_SERVICE_NAMES svc of
                 Some n \<Rightarrow> n
               | None \<Rightarrow>
                   (case Description (Service rated) of
                      Some d \<Rightarrow> Plain d
                    | None \<Rightarrow> Plain (''UPS Service '' @ svc))),
            quote_serviceLevel =
              (case object_get UPS_SERVICE_CODE_TO_LEVEL svc of
                 Some l \<Rightarrow> l
               | None \<Rightarrow> Plain STANDARD),
            totalCharges = mapUpsCharges rt (TotalCharges rated),
            baseCharges = mapUpsCharges rt (TransportationCharges rated),
            surcharges = mapUpsSurcharges rt (ItemizedCharges rated),
            transitDays = parseTransitDays rt rated,
            estimatedDelivery = parseEstimatedDelivery rated,
            guaranteed = (GuaranteedDelivery rated \<noteq> None),
            billingWeight =
              Some \<lparr> billing_value = parseFloat rt (Weight (BillingWeight rated)),
                     billing_unit = uom_Code (weight_UnitOfMeasurement (BillingWeight rated)) \<rparr> \<rparr>)"

section \<open>UPS rating operation: the response parser\<close>

text \<open>
  \<^verbatim>\<open>UpsRatingOperation.parseResponse\<close>. With the shipments typed as above, mapping
  them raises nothing, so the handler of the \<^verbatim>\<open>try\<close> sees only the two errors
  thrown inside it, which it passes on.
\<close>

definition parseResponse :: "runtime \<Rightarrow> UpsRateResponse option \<Rightarrow> thrown + RateQuote list" where
  "parseResponse rt response =
     (case (case response of None \<Rightarrow> None | Some r \<Rightarrow> RateResponse r) of
        None \<Rightarrow>
          Inl (CarrierError (malformedResponseError UPS ''Missing RateResponse in response body''))
      | Some rateResponse \<Rightarrow>
          (case RatedShipment rateResponse of
             None \<Rightarrow>
               Inl (CarrierError (malformedResponseError UPS ''Missing RatedShipment in response''))
           | Some ratedShipments \<Rightarrow>
               (let shipments = toArray ratedShipments;
                    qs = map (mapFromUpsRatedShipment rt) shipments
                in Inr (Array_sort byTotalCharges qs))))"

section \<open>UPS token manager\<close>

text \<open>
  \<^verbatim>\<open>UpsAuthManager\<close> keeps the token and the promise of the acquisition in
  flight. A promise is named by the number of the credential exchange it waits for.
  Two counters are added to the state of the class: \<open>tokenRequests\<close>, the credential
  exchanges issued so far, and \<open>clockReads\<close>, the times the manager has read
  \<^verbatim>\<open>Date.now()\<close>.

  The world outside is an oracle: \<open>oauth n\<close> is how the \<open>n\<close>-th credential exchange
  ends, \<open>clock k\<close> is what the \<open>k\<close>-th reading of the clock shows (in milliseconds).
\<close>

record TokenData =
  accessToken :: string
  expiresAt :: rat
  tokenType :: string

record UpsAuthManager =
  token :: "TokenData option"
  inflightRequest :: "nat option"
  tokenRequests :: nat
  clockReads :: nat

record UpsCarrierConfig =
  clientId :: string
  clientSecret :: string
  accountNumber :: string
  baseUrl :: string
  timeout :: rat
  defaults_timeout :: "rat option"
  transactionSource :: string
  ratingApiVersion :: string

text \<open>The field \<^verbatim>\<open>expires_in\<close> arrives as a number or as a string.\<close>

datatype scalar = Num rat | Str string

record TokenResponse =
  token_status :: int
  access_token :: "string option"
  token_type :: "string option"
  expires_in :: "scalar option"

datatype 'a settled = Resolved 'a | Rejected thrown

record AuthWorld =
  oauth :: "nat \<Rightarrow> TokenResponse settled"
  clock :: "nat \<Rightarrow> rat"

definition new_UpsAuthManager :: UpsAuthManager where
  "new_UpsAuthManager =
     \<lparr> token = None, inflightRequest = None, tokenRequests = 0, clockReads = 0 \<rparr>"

definition EXPIRY_BUFFER_MS :: rat where
  "EXPIRY_BUFFER_MS = 60000"

definition isExpired :: "rat \<Rightarrow> TokenData \<Rightarrow> bool" where
  "isExpired now t = (now \<ge> expiresAt t - EXPIRY_BUFFER_MS)"

definition invalidateToken :: "UpsAuthManager \<Rightarrow> UpsAuthManager" where
  "invalidateToken s = s\<lparr>token := None\<rparr>"

definition hasValidToken :: "AuthWorld \<Rightarrow> UpsAuthManager \<Rightarrow> bool \<times> UpsAuthManager" where
  "hasValidToken env s =
     (case token s of
        None \<Rightarrow> (False, s)
      | Some t \<Rightarrow>
          (\<not> isExpired (clock env (clockReads s)) t, s\<lparr>clockReads := Suc (clockReads s)\<rparr>))"

definition timeout_code :: "string option \<Rightarrow> bool" where
  "timeout_code c = (c = Some ''ECONNABORTED'' \<or> c = Some ''ETIMEDOUT'')"

definition retryAfter_ms :: "runtime \<Rightarrow> string option \<Rightarrow> rat option" where
  "retryAfter_ms rt h = (if truthy h then map_option (\<lambda>v. Number rt v * 1000) h else None)"

definition classifyAuthError :: "runtime \<Rightarrow> UpsCarrierConfig \<Rightarrow> thrown \<Rightarrow> CarrierErrorDetails" where
  "classifyAuthError rt cfg err =
     (case err of
        AxiosError c m r \<Rightarrow>
          if timeout_code c then timeoutError rt UPS (timeout cfg)
          else (case r of
                  None \<Rightarrow> networkError UPS m
                | Some resp \<Rightarrow>
                    if status resp = 401 \<or> status resp = 403
                    then authError UPS ''Invalid client credentials'' (Some (status resp))
                    else if status resp = 429
                    then \<lparr> code = RATE_LIMITED,
                           message = ''[UPS] Rate limited during authentication'',
                           carrier = Some UPS, httpStatus = Some 429,
                           carrierErrorCode = None, carrierErrorMessage = None,
                           retryable = True,
                           retryAfterMs = retryAfter_ms rt (retry_after resp) \<rparr>
                    else authError UPS
                           (''HTTP '' @ numberToString rt (of_int (status resp)) @ '': '' @ m)
                           (Some (status resp)))
      | CarrierError d \<Rightarrow> authError UPS (message d) None
      | Error m \<Rightarrow> authError UPS m None
      | Thrown_value \<Rightarrow> authError UPS ''Unknown auth error'' None)"

definition scalar_truthy :: "scalar option \<Rightarrow> bool" where
  "scalar_truthy v =
     (case v of None \<Rightarrow> False | Some (Num n) \<Rightarrow> n \<noteq> 0 | Some (Str s) \<Rightarrow> s \<noteq> [])"

definition scalar_Number :: "runtime \<Rightarrow> scalar \<Rightarrow> rat" where
  "scalar_Number rt v = (case v of Num n \<Rightarrow> n | Str s \<Rightarrow> Number rt s)"

text \<open>
  \<^verbatim>\<open>acquireToken\<close> from the moment the exchange has ended: a response with both
  fields gives the token, and the clock is read for its expiry; everything else
  is thrown as a \<^verbatim>\<open>CarrierError\<close>.
\<close>

definition acquireToken_settle ::
  "runtime \<Rightarrow> UpsCarrierConfig \<Rightarrow> AuthWorld \<Rightarrow> nat \<Rightarrow> UpsAuthManager
     \<Rightarrow> (CarrierErrorDetails + TokenData) \<times> UpsAuthManager" where
  "acquireToken_settle rt cfg env p s =
     (case oauth env p of
        Resolved resp \<Rightarrow>
          (case (access_token resp, expires_in resp) of
             (Some a, Some e) \<Rightarrow>
               if truthy (Some a) \<and> scalar_truthy (Some e)
               then (Inr \<lparr> accessToken = a,
                           expiresAt = clock env (clockReads s) + scalar_Number rt e * 1000,
                           tokenType = (case token_type resp of Some t \<Rightarrow> t | None \<Rightarrow> ''Bearer'') \<rparr>,
                     s\<lparr>clockReads := Suc (clockReads s)\<rparr>)
               else (Inl (authError UPS
                       ''Token response missing required fields (access_token, expires_in)''
                       (Some (token_status resp))), s)
           | _ \<Rightarrow>
               (Inl (authError UPS
                  ''Token response missing required fields (access_token, expires_in)''
                  (Some (token_status resp))), s))
      | Rejected err \<Rightarrow>
          (case err of
             CarrierError d \<Rightarrow> (Inl d, s)
           | _ \<Rightarrow> (Inl (classifyAuthError rt cfg err), s)))"

text \<open>
  \<^verbatim>\<open>getAccessToken\<close> runs without interruption up to its \<^verbatim>\<open>await\<close>:
  \<open>getAccessToken_begin\<close>. It either returns the cached token, or leaves the call
  waiting for the promise in flight, which it creates (issuing the exchange) when there
  is none. A call is then in one of three states.
\<close>

datatype call = Waiting nat | Fulfilled string | Failed CarrierErrorDetails

definition startAcquisition :: "UpsAuthManager \<Rightarrow> call \<times> UpsAuthManager" where
  "startAcquisition s =
     (case inflightRequest s of
        None \<Rightarrow>
          (Waiting (tokenRequests s),
           s\<lparr>inflightRequest := Some (tokenRequests s), tokenRequests := Suc (tokenRequests s)\<rparr>)
      | Some p \<Rightarrow> (Waiting p, s))"

definition getAccessToken_begin :: "AuthWorld \<Rightarrow> UpsAuthManager \<Rightarrow> call \<times> UpsAuthManager" where
  "getAccessToken_begin env s =
     (case token s of
        None \<Rightarrow> startAcquisition s
      | Some t \<Rightarrow>
          (let now = clock env (clockReads s);
               s1 = s\<lparr>clockReads := Suc (clockReads s)\<rparr>
           in if \<not> isExpired now t then (Fulfilled (accessToken t), s1)
              else startAcquisition s1))"

text \<open>
  The promise in flight settles: the acquisition ends and the \<^verbatim>\<open>finally\<close> handler
  clears the slot, before any call that waits is resumed.
\<close>

definition inflight_settle ::
  "runtime \<Rightarrow> UpsCarrierConfig \<Rightarrow> AuthWorld \<Rightarrow> nat \<Rightarrow> UpsAuthManager
     \<Rightarrow> (CarrierErrorDetails + TokenData) \<times> UpsAuthManager" where
  "inflight_settle rt cfg env p s =
     (let (outcome, s1) = acquireToken_settle rt cfg env p s
      in (outcome, s1\<lparr>inflightRequest := None\<rparr>))"

text \<open>
  The code after the \<^verbatim>\<open>await\<close>: with the token of the promise, store it and
  return its string; with its error, fail.
\<close>

definition afterAwait ::
  "CarrierErrorDetails + TokenData \<Rightarrow> UpsAuthManager
     \<Rightarrow> (CarrierErrorDetails + string) \<times> UpsAuthManager" where
  "afterAwait outcome s =
     (case outcome of
        Inl e \<Rightarrow> (Inl e, s)
      | Inr tokenData \<Rightarrow> (Inr (accessToken tokenData), s\<lparr>token := Some tokenData\<rparr>))"


text \<open>One caller alone: the three steps in a row.\<close>

definition getAccessToken ::
  "runtime \<Rightarrow> UpsCarrierConfig \<Rightarrow> AuthWorld \<Rightarrow> UpsAuthManager
     \<Rightarrow> (CarrierErrorDetails + string) \<times> UpsAuthManager" where
  "getAccessToken rt cfg env s =
     (case getAccessToken_begin env s of
        (Fulfilled a, s1) \<Rightarrow> (Inr a, s1)
      | (Failed e, s1) \<Rightarrow> (Inl e, s1)
      | (Waiting p, s1) \<Rightarrow>
          (let (outcome, s2) = inflight_settle rt cfg env p s1
           in afterAwait outcome s2))"






section \<open>UPS HTTP client\<close>

text \<open>
  The body of an error response is read with the JavaScript rules: what is truthy,
  what \<^verbatim>\<open>typeof\<close> calls an object, what a member access gives (\<open>None\<close> is
  \<^verbatim>\<open>undefined\<close>; of a name given twice in the text the last counts) and what
  \<^verbatim>\<open>String\<close> makes of a value. The four names that the code reads are not names of
  inherited members.
\<close>

fun json_truthy :: "json \<Rightarrow> bool" where
  "json_truthy JNull = False"
| "json_truthy (JBool b) = b"
| "json_truthy (JNum n) = (n \<noteq> 0)"
| "json_truthy (JStr s) = (s \<noteq> [])"
| "json_truthy (JArr xs) = True"
| "json_truthy (JObj ms) = True"

fun is_object :: "json \<Rightarrow> bool" where
  "is_object JNull = True"
| "is_object (JArr xs) = True"
| "is_object (JObj ms) = True"
| "is_object _ = False"

fun member :: "json \<Rightarrow> string \<Rightarrow> json option" where
  "member (JObj ms) k = map_of (rev ms) k"
| "member _ k = None"

fun js_String :: "runtime \<Rightarrow> json \<Rightarrow> string" where
  "js_String rt JNull = ''null''"
| "js_String rt (JBool b) = (if b then ''true'' else ''false'')"
| "js_String rt (JNum n) = numberToString rt n"
| "js_String rt (JStr s) = s"
| "js_String rt (JArr xs) =
     join '','' (map (\<lambda>x. if x = JNull then [] else js_String rt x) xs)"
| "js_String rt (JObj ms) = ''[object Object]''"

text \<open>\<^verbatim>\<open>String(v ?? d)\<close> for a member \<open>v\<close> that may be missing or null.\<close>

definition String_or :: "runtime \<Rightarrow> json option \<Rightarrow> string \<Rightarrow> string" where
  "String_or rt v d =
     (case v of None \<Rightarrow> d | Some JNull \<Rightarrow> d | Some x \<Rightarrow> js_String rt x)"

definition extractUpsError :: "runtime \<Rightarrow> json \<Rightarrow> string \<times> string" where
  "extractUpsError rt body =
     (let dflt = (''UNKNOWN'', ''Unknown UPS API error'')
      in if json_truthy body \<and> is_object body
         then (case member body ''response'' of
                 None \<Rightarrow> dflt
               | Some resp \<Rightarrow>
                   if json_truthy resp \<and> is_object resp
                   then (case member resp ''errors'' of
                           Some (JArr (firstError # rest)) \<Rightarrow>
                             if firstError = JNull then dflt
                             else (String_or rt (member firstError ''code'') ''UNKNOWN'',
                                   String_or rt (member firstError ''message'') ''Unknown UPS error'')
                         | _ \<Rightarrow> dflt)
                   else dflt)
         else dflt)"

definition classifyError :: "runtime \<Rightarrow> UpsCarrierConfig \<Rightarrow> thrown \<Rightarrow> CarrierErrorDetails" where
  "classifyError rt cfg err =
     (case err of
        CarrierError d \<Rightarrow> d
      | AxiosError c m r \<Rightarrow>
          if timeout_code c
          then timeoutError rt UPS (case defaults_timeout cfg of Some t \<Rightarrow> t | None \<Rightarrow> 10000)
          else (case r of
                  None \<Rightarrow> networkError UPS m
                | Some resp \<Rightarrow>
                    if status resp = 429
                    then rateLimitError UPS (retryAfter_ms rt (retry_after resp))
                    else
                      (let (upsCode, upsMessage) = extractUpsError rt (data resp)
                       in if status resp = 401
                          then \<lparr> code = AUTH_FAILED,
                                 message = ''[UPS] Authentication failed: '' @ upsMessage,
                                 carrier = Some UPS, httpStatus = Some (status resp),
                                 carrierErrorCode = Some upsCode,
                                 carrierErrorMessage = Some upsMessage,
                                 retryable = False, retryAfterMs = None \<rparr>
                          else if status resp = 403
                          then \<lparr> code = FORBIDDEN,
                                 message = ''[UPS] Forbidden: '' @ upsMessage,
                                 carrier = Some UPS, httpStatus = Some (status resp),
                                 carrierErrorCode = Some upsCode,
                                 carrierErrorMessage = Some upsMessage,
                                 retryable = False, retryAfterMs = None \<rparr>
                          else if status resp \<ge> 400 \<and> status resp < 500
                          then carrierApiError rt UPS upsMessage (status resp)
                                 (Some upsCode) (Some upsMessage)
                          else carrierApiError rt UPS upsMessage (status resp)
                                 (Some upsCode) (Some upsMessage)))
      | Error m \<Rightarrow> malformedResponseError UPS m
      | Thrown_value \<Rightarrow> malformedResponseError UPS ''Unknown error'')"

text \<open>
  The state of \<^verbatim>\<open>UpsHttpClient\<close>: its token manager, to which the log of the
  requests sent to the API (path, payload, bearer token) and the count of the attempts
  made (the calls of \<^verbatim>\<open>makeRequest\<close>) are added. The correlation headers
  are left out of the log. \<open>api n\<close> is how the \<open>n\<close>-th request to the API ends: with
  the decoded body of a response, or with what axios rejects with.
\<close>

record 'req UpsHttpClient =
  auth :: UpsAuthManager
  sent :: "(string \<times> 'req \<times> string) list"
  attempts :: nat

record 'resp UpsWorld =
  authWorld :: AuthWorld
  api :: "nat \<Rightarrow> 'resp settled"

definition new_UpsHttpClient :: "'req UpsHttpClient" where
  "new_UpsHttpClient = \<lparr> auth = new_UpsAuthManager, sent = [], attempts = 0 \<rparr>"

definition makeRequest ::
  "runtime \<Rightarrow> UpsCarrierConfig \<Rightarrow> 'resp UpsWorld \<Rightarrow> string \<Rightarrow> 'req \<Rightarrow> 'req UpsHttpClient
     \<Rightarrow> 'resp settled \<times> 'req UpsHttpClient" where
  "makeRequest rt cfg env path payload s =
     (case getAccessToken rt cfg (authWorld env) (auth s) of
        (Inl e, a) \<Rightarrow>
          (Rejected (CarrierError e), s\<lparr>auth := a, attempts := Suc (attempts s)\<rparr>)
      | (Inr bearer, a) \<Rightarrow>
          (api env (length (sent s)),
           s\<lparr>auth := a, sent := sent s @ [(path, payload, bearer)],
             attempts := Suc (attempts s)\<rparr>))"

fun is_401 :: "thrown \<Rightarrow> bool" where
  "is_401 (AxiosError c m (Some resp)) = (status resp = 401)"
| "is_401 _ = False"

definition post ::
  "runtime \<Rightarrow> UpsCarrierConfig \<Rightarrow> 'resp UpsWorld \<Rightarrow> string \<Rightarrow> 'req \<Rightarrow> 'req UpsHttpClient
     \<Rightarrow> (thrown + 'resp) \<times> 'req UpsHttpClient" where
  "post rt cfg env path payload s =
     (case makeRequest rt cfg env path payload s of
        (Resolved body, s1) \<Rightarrow> (Inr body, s1)
      | (Rejected err, s1) \<Rightarrow>
          if is_401 err
          then (case makeRequest rt cfg env path payload (s1\<lparr>auth := invalidateToken (auth s1)\<rparr>) of
                  (Resolved body, s2) \<Rightarrow> (Inr body, s2)
                | (Rejected retryError, s2) \<Rightarrow>
                    (Inl (CarrierError (classifyError rt cfg retryError)), s2))
          else (Inl (CarrierError (classifyError rt cfg err)), s1))"

section \<open>UPS rating operation and provider\<close>

definition UpsRatingOperation_getRates ::
  "runtime \<Rightarrow> UpsCarrierConfig \<Rightarrow> UpsRateResponse option UpsWorld \<Rightarrow> RateRequest
     \<Rightarrow> UpsRateRequest UpsHttpClient \<Rightarrow> (thrown + RateQuote list) \<times> UpsRateRequest UpsHttpClient" where
  "UpsRatingOperation_getRates rt cfg env request s =
     (let requestOption = (if serviceLevel request \<noteq> None then ''Rate'' else ''Shop'');
          path = ''/api/rating/'' @ ratingApiVersion cfg @ ''/'' @ requestOption;
          payload = mapToUpsRateRequest rt request (accountNumber cfg);
          (r, s1) = post rt cfg env path payload s
      in case r of
           Inl e \<Rightarrow> (Inl e, s1)
         | Inr response \<Rightarrow> (parseResponse rt response, s1))"

definition UpsCarrier ::
  "runtime \<Rightarrow> UpsCarrierConfig \<Rightarrow> UpsRateResponse option UpsWorld
     \<Rightarrow> UpsRateRequest UpsHttpClient CarrierProvider" where
  "UpsCarrier rt cfg env =
     \<lparr> carrierId = UPS,
       carrierName = ''United Parcel Service'',
       supportedOperations = [OP_rate],
       getRates = UpsRatingOperation_getRates rt cfg env \<rparr>"

section \<open>Properties of the data that the statements below refer to\<close>

text \<open>
  A registry is well formed when no identifier occurs twice and every provider is
  stored under its own identifier: what \<open>register\<close> keeps true from the empty registry.
\<close>

definition wf_registry :: "'w CarrierRegistry \<Rightarrow> bool" where
  "wf_registry registry =
     (distinct (map fst registry) \<and> list_all (\<lambda>(k, p). carrierId p = k) registry)"



section \<open>Sample data\<close>

text \<open>
  Concrete inputs, after the fixtures of the test suite, at which the theorems below
  are instantiated. The sample runtime knows the few strings that occur in them.
\<close>

definition sample_runtime :: runtime where
  "sample_runtime =
     \<lparr> parseFloat = (\<lambda>s. case map_of [(''15.50'', 31 / 2), (''28.75'', 115 / 4), (''45.00'', 45),
                                       (''6.0'', 6), (''0.00'', 0)] s of
                            Some r \<Rightarrow> Finite r
                          | None \<Rightarrow> NaN),
       parseInt = (\<lambda>s. NaN),
       Number = (\<lambda>s. if s = ''14399'' then 14399 else 0),
       numberToString = (\<lambda>r. ''0'') \<rparr>"

definition sample_config :: UpsCarrierConfig where
  "sample_config =
     \<lparr> clientId = ''test_client_id'', clientSecret = ''test_client_secret'',
       accountNumber = ''A1B2C3'', baseUrl = ''https://onlinetools.ups.com'',
       timeout = 10000, defaults_timeout = Some 10000,
       transactionSource = ''CybershipCIS'', ratingApiVersion = ''v2409'' \<rparr>"

definition sample_address :: Address where
  "sample_address =
     \<lparr> name = ''Test Shipper'', addressLines = [''123 Main St''], city = ''San Francisco'',
       stateCode = ''CA'', postalCode = ''94105'', countryCode = ''US'',
       isResidential = None \<rparr>"

definition sample_package :: Package where
  "sample_package =
     \<lparr> dimensions = \<lparr> dim_length = 12, dim_width = 8, dim_height = 6, dim_unit = IN \<rparr>,
       weight = \<lparr> weight_value = 11 / 2, weight_unit = LBS \<rparr>,
       packagingType = None, declaredValue = None \<rparr>"

definition sample_request :: RateRequest where
  "sample_request =
     \<lparr> origin = sample_address, destination = sample_address,
       packages = [sample_package], serviceLevel = None, carriers = None,
       shipperAccountNumber = None \<rparr>"

definition sample_shipment :: "string \<Rightarrow> string option \<Rightarrow> string \<Rightarrow> UpsRatedShipment" where
  "sample_shipment svc descr charge =
     \<lparr> Service = \<lparr> Code = svc, Description = descr \<rparr>,
       BillingWeight =
         \<lparr> weight_UnitOfMeasurement = \<lparr> uom_Code = ''LBS'', uom_Description = None \<rparr>,
           Weight = ''6.0'' \<rparr>,
       TransportationCharges = \<lparr> CurrencyCode = ''USD'', MonetaryValue = charge \<rparr>,
       ServiceOptionsCharges = \<lparr> CurrencyCode = ''USD'', MonetaryValue = ''0.00'' \<rparr>,
       TotalCharges = \<lparr> CurrencyCode = ''USD'', MonetaryValue = charge \<rparr>,
       GuaranteedDelivery = None, ItemizedCharges = None, TimeInTransit = None \<rparr>"

definition sample_shop_response :: UpsRateResponse where
  "sample_shop_response =
     \<lparr> RateResponse = Some \<lparr> RatedShipment = Some (Many
         [sample_shipment ''02'' (Some ''UPS 2nd Day Air'') ''28.75'',
          sample_shipment ''03'' (Some ''UPS Ground'') ''15.50'',
          sample_shipment ''01'' (Some ''UPS Next Day Air'') ''45.00'']) \<rparr> \<rparr>"


definition sample_token_response :: TokenResponse where
  "sample_token_response =
     \<lparr> token_status = 200, access_token = Some ''test_access_token_12345'',
       token_type = Some ''Bearer'', expires_in = Some (Str ''14399'') \<rparr>"

definition sample_auth_world :: AuthWorld where
  "sample_auth_world = \<lparr> oauth = (\<lambda>n. Resolved sample_token_response), clock = (\<lambda>k. 0) \<rparr>"


definition sample_world :: "UpsRateResponse option UpsWorld" where
  "sample_world =
     \<lparr> authWorld = sample_auth_world, api = (\<lambda>n. Resolved (Some sample_shop_response)) \<rparr>"







definition sample_quote :: RateQuote where
  "sample_quote =
     \<lparr> quote_carrier = UPS, serviceCode = ''03'', serviceName = Plain ''UPS Ground'',
       quote_serviceLevel = Plain GROUND,
       totalCharges = \<lparr> amount = Finite (31 / 2), currency = ''USD'' \<rparr>,
       baseCharges = \<lparr> amount = Finite 14, currency = ''USD'' \<rparr>,
       surcharges = [], transitDays = None, estimatedDelivery = None,
       guaranteed = False, billingWeight = None \<rparr>"

definition sample_ups_provider :: "unit CarrierProvider" where
  "sample_ups_provider =
     \<lparr> carrierId = UPS, carrierName = ''UPS'', supportedOperations = [OP_rate],
       getRates = (\<lambda>r w. (Inr [sample_quote], w)) \<rparr>"

definition sample_failing_provider :: "unit CarrierProvider" where
  "sample_failing_provider =
     \<lparr> carrierId = FEDEX, carrierName = ''FedEx'', supportedOperations = [OP_rate],
       getRates = (\<lambda>r w. (Inl (Error ''FedEx is down''), w)) \<rparr>"

definition sample_label_provider :: "unit CarrierProvider" where
  "sample_label_provider =
     \<lparr> carrierId = DHL, carrierName = ''DHL'', supportedOperations = [OP_label, OP_tracking],
       getRates = (\<lambda>r w. (Inr [sample_quote\<lparr>quote_carrier := DHL\<rparr>], w)) \<rparr>"

definition sample_mixed_registry :: "unit CarrierRegistry" where
  "sample_mixed_registry =
     [(DHL, sample_label_provider), (UPS, sample_ups_provider), (FEDEX, sample_failing_provider)]"



definition sample_ups_registry :: "UpsRateRequest UpsHttpClient CarrierRegistry" where
  "sample_ups_registry = [(UPS, UpsCarrier sample_runtime sample_config sample_world)]"

section \<open>Lemmas on numbers and sorting\<close>











section \<open>The registry and the rate shopping service\<close>

lemma wf_get: "wf_registry registry \<Longrightarrow> p \<in> set (getAll registry) \<Longrightarrow> get registry (carrierId p) = Inr p"
proof -
  assume wf: "wf_registry registry" and "p \<in> set (getAll registry)"
  then obtain k where k: "(k, p) \<in> set registry" by (auto simp: getAll_def)
  with wf have "carrierId p = k" by (auto simp: wf_registry_def list_all_iff)
  moreover from wf k have "map_of registry k = Some p" by (simp add: wf_registry_def)
  ultimately show ?thesis by (simp add: get_def)
qed

lemma register_wf:
  assumes "wf_registry registry" and "register registry provider = Inr registry'"
  shows "wf_registry registry'"
proof -
  have new: "carrierId provider \<notin> fst ` set registry" and r: "registry' = registry @ [(carrierId provider, provider)]"
    using assms(2) by (auto simp: register_def has_def map_of_eq_None_iff split: if_splits)
  then show ?thesis using assms(1) by (auto simp: wf_registry_def)
qed

lemma empty_registry_wf: "wf_registry []"
  by (simp add: wf_registry_def)

lemma allSettled_called:
  "\<forall>c \<in> set cs. \<exists>p. get registry c = Inr p \<Longrightarrow>
   snd (snd (allSettled registry request cs (w, called))) = called @ cs"
proof (induction cs arbitrary: w called)
  case Nil then show ?case by simp
next
  case (Cons c cs)
  then obtain p where p: "get registry c = Inr p" by auto
  obtain r w' where g: "getRates p request w = (r, w')" by (cases "getRates p request w")
  have "snd (snd (allSettled registry request cs (w', called @ [c]))) = (called @ [c]) @ cs"
    using Cons by simp
  then show ?case using p g
    by (cases "allSettled registry request cs (w', called @ [c])") (simp add: queryCarrier_def)
qed

lemma get_in_getAll: "get registry c = Inr p \<Longrightarrow> p \<in> set (getAll registry)"
  by (auto simp: get_def getAll_def split: option.splits dest!: map_of_SomeD intro: image_eqI[where x="(c, p)"])

lemma queryCarrier_cong:
  assumes "\<forall>p \<in> set (getAll registry). getRates p r1 = getRates p r2"
  shows "queryCarrier registry r1 c wc = queryCarrier registry r2 c wc"
proof (cases "get registry c")
  case (Inl e)
  then show ?thesis by (simp add: queryCarrier_def split: prod.splits)
next
  case (Inr p)
  with assms have "getRates p r1 = getRates p r2" by (simp add: get_in_getAll)
  with Inr show ?thesis by (simp add: queryCarrier_def split: prod.splits)
qed

lemma allSettled_cong:
  assumes "\<forall>p \<in> set (getAll registry). getRates p r1 = getRates p r2"
  shows "allSettled registry r1 cs wc = allSettled registry r2 cs wc"
  by (induction cs arbitrary: wc) (simp_all add: queryCarrier_cong[OF assms])

lemma RateRequestSchema_carriers: "RateRequestSchema rt (request\<lparr>carriers := x\<rparr>) = RateRequestSchema rt request"
  by (simp add: RateRequestSchema_def)

lemma validateRequest_carriers: "validateRequest rt (request\<lparr>carriers := x\<rparr>) = validateRequest rt request"
  by (simp add: validateRequest_def RateRequestSchema_carriers)

lemma getQuotes_valid:
  assumes "validateRequest rt request = Inr ()"
  shows "getQuotes rt registry request w =
     (let cs = resolveCarriers registry (carriers request);
          (results, w', called) = allSettled registry request cs (w, []);
          (allQuotes, errors) = collect (zip cs results)
      in case (allQuotes, errors) of
           ([], e # _) \<Rightarrow> (Inl (CarrierError e), w', called)
         | _ \<Rightarrow> (Inr \<lparr> quotes = Array_sort byTotalCharges allQuotes, response_carriers = cs \<rparr>, w', called))"
  using assms by (simp add: getQuotes_def)

lemma rate_providers_found:
  assumes "wf_registry registry"
  shows "\<forall>c \<in> set (map carrierId (getByOperation registry OP_rate)). \<exists>p. get registry c = Inr p"
  using wf_get[OF assms] by (auto simp: getByOperation_def)

lemma rate_provider_ids:
  "map carrierId (getByOperation registry OP_rate)
     = map (\<lambda>(k, p). carrierId p)
         (filter (\<lambda>(k, p). OP_rate \<in> set (supportedOperations p)) registry)"
  by (induction registry) (auto simp: getByOperation_def getAll_def)

lemma rate_provider_ids_set:
  assumes "wf_registry registry"
  shows "set (map (\<lambda>(k, p). carrierId p)
               (filter (\<lambda>(k, p). OP_rate \<in> set (supportedOperations p)) registry))
           = {k. \<exists>p. map_of registry k = Some p \<and> OP_rate \<in> set (supportedOperations p)}"
proof -
  have d: "distinct (map fst registry)" and own: "\<forall>(k, p) \<in> set registry. carrierId p = k"
    using assms by (auto simp: wf_registry_def list_all_iff)
  have "\<And>k p. (map_of registry k = Some p) = ((k, p) \<in> set registry)"
    using d by (auto intro: map_of_is_SomeI dest: map_of_SomeD)
  then show ?thesis using own by force
qed


text \<open>
  Claim C10. For a valid request whose carrier list is present and empty, the carriers
  resolved are the identifiers of exactly the registered providers whose supported
  operations include the rate operation, in the order of registration, as for an absent
  list. On a well-formed registry \<^verbatim>\<open>getRates\<close> is called on each of them, in that order,
  and on no other provider, and the response names them. When no provider reads the
  field, the whole outcome of \<^verbatim>\<open>getQuotes\<close> is that for the request without the list.
\<close>

theorem empty_carriers_means_all_rate_providers:
  assumes valid: "validateRequest rt request = Inr ()"
      and empty: "carriers request = Some []"
      and wf: "wf_registry registry"
  shows "resolveCarriers registry (carriers request)
           = map (\<lambda>(k, p). carrierId p)
               (filter (\<lambda>(k, p). OP_rate \<in> set (supportedOperations p)) registry)
       \<and> set (resolveCarriers registry (carriers request))
           = {k. \<exists>p. map_of registry k = Some p \<and> OP_rate \<in> set (supportedOperations p)}
       \<and> resolveCarriers registry (carriers request) = resolveCarriers registry None
       \<and> snd (snd (getQuotes rt registry request w))
           = map (\<lambda>(k, p). carrierId p)
               (filter (\<lambda>(k, p). OP_rate \<in> set (supportedOperations p)) registry)
       \<and> (\<forall>r. fst (getQuotes rt registry request w) = Inr r
              \<longrightarrow> response_carriers r
                    = map (\<lambda>(k, p). carrierId p)
                        (filter (\<lambda>(k, p). OP_rate \<in> set (supportedOperations p)) registry))
       \<and> ((\<forall>p \<in> set (getAll registry). getRates p request = getRates p (request\<lparr>carriers := None\<rparr>))
              \<longrightarrow> getQuotes rt registry request w = getQuotes rt registry (request\<lparr>carriers := None\<rparr>) w)"
proof -
  let ?ids = "map (\<lambda>(k, p). carrierId p)
               (filter (\<lambda>(k, p). OP_rate \<in> set (supportedOperations p)) registry)"
  have ids: "map carrierId (getByOperation registry OP_rate) = ?ids"
    by (simp add: rate_provider_ids)
  have res: "resolveCarriers registry (carriers request) = ?ids"
    using empty ids by (simp add: resolveCarriers_def)
  have res': "resolveCarriers registry (carriers request) = resolveCarriers registry None"
    using empty by (simp add: resolveCarriers_def)
  have ids_set: "set (resolveCarriers registry (carriers request))
           = {k. \<exists>p. map_of registry k = Some p \<and> OP_rate \<in> set (supportedOperations p)}"
    unfolding res by (rule rate_provider_ids_set[OF wf])
  have found: "\<forall>c \<in> set ?ids. \<exists>p. get registry c = Inr p"
    using rate_providers_found[OF wf] ids by simp
  obtain results w' called where st: "allSettled registry request ?ids (w, []) = (results, w', called)"
    by (cases "allSettled registry request ?ids (w, [])")
  have called: "called = ?ids"
    using allSettled_called[OF found, of request w "[]"] st by simp
  obtain allQuotes errors where col: "collect (zip ?ids results) = (allQuotes, errors)"
    by (cases "collect (zip ?ids results)")
  have q: "getQuotes rt registry request w =
     (case (allQuotes, errors) of
           ([], e # _) \<Rightarrow> (Inl (CarrierError e), w', called)
         | _ \<Rightarrow> (Inr \<lparr> quotes = Array_sort byTotalCharges allQuotes, response_carriers = ?ids \<rparr>, w', called))"
    using getQuotes_valid[OF valid, of registry w] st col unfolding res by (simp add: Let_def)
  have c3: "snd (snd (getQuotes rt registry request w)) = ?ids"
    using q called by (auto split: list.splits)
  have c4: "\<forall>r. fst (getQuotes rt registry request w) = Inr r \<longrightarrow> response_carriers r = ?ids"
    using q by (auto split: list.splits)
  have c5: "(\<forall>p \<in> set (getAll registry). getRates p request = getRates p (request\<lparr>carriers := None\<rparr>))
              \<longrightarrow> getQuotes rt registry request w = getQuotes rt registry (request\<lparr>carriers := None\<rparr>) w"
  proof
    assume same: "\<forall>p \<in> set (getAll registry). getRates p request = getRates p (request\<lparr>carriers := None\<rparr>)"
    have v: "validateRequest rt (request\<lparr>carriers := None\<rparr>) = Inr ()"
      using valid by (simp add: validateRequest_carriers)
    show "getQuotes rt registry request w = getQuotes rt registry (request\<lparr>carriers := None\<rparr>) w"
      using res' allSettled_cong[OF same]
      by (simp add: getQuotes_valid[OF valid] getQuotes_valid[OF v])
  qed
  show ?thesis using res ids_set res' c3 c4 c5 by blast
qed





lemma validateRequest_issues:
  "RateRequestSchema rt request \<noteq> [] \<Longrightarrow>
   \<exists>d. validateRequest rt request = Inl (CarrierError d) \<and> code d = VALIDATION_ERROR"
  by (cases "RateRequestSchema rt request") (simp_all add: validateRequest_def validationError_def)

text \<open>
  Claim C7. A request with issues against the schema makes \<^verbatim>\<open>getQuotes\<close> raise a
  validation error with the world untouched and no provider called: no
  \<^verbatim>\<open>getRates\<close>, hence no token acquisition. A request with no package or with more
  than 50 packages has such an issue.
\<close>

theorem invalid_request_raises_before_any_call:
  "(RateRequestSchema rt request \<noteq> []
      \<longrightarrow> (\<exists>d. getQuotes rt registry request w = (Inl (CarrierError d), w, [])
               \<and> code d = VALIDATION_ERROR))
   \<and> (length (packages request) = 0 \<or> length (packages request) > 50
      \<longrightarrow> RateRequestSchema rt request \<noteq> [])"
proof -
  have a: "RateRequestSchema rt request \<noteq> []
      \<longrightarrow> (\<exists>d. getQuotes rt registry request w = (Inl (CarrierError d), w, [])
               \<and> code d = VALIDATION_ERROR)"
  proof
    assume "RateRequestSchema rt request \<noteq> []"
    then obtain d where "validateRequest rt request = Inl (CarrierError d)" "code d = VALIDATION_ERROR"
      using validateRequest_issues by blast
    then show "\<exists>d. getQuotes rt registry request w = (Inl (CarrierError d), w, []) \<and> code d = VALIDATION_ERROR"
      by (simp add: getQuotes_def)
  qed
  have b: "length (packages request) = 0 \<or> length (packages request) > 50
      \<longrightarrow> RateRequestSchema rt request \<noteq> []"
    by (auto simp: RateRequestSchema_def check_def)
  show ?thesis using a b by blast
qed

section \<open>The token manager\<close>


















section \<open>The HTTP client and the mapper\<close>










text \<open>
  Claim C6. A response whose rated-shipment field is one object and a response whose
  field is the one-element array of that object are parsed to the same quotes: the one
  quote mapped from the object.
\<close>

theorem single_and_array_parse_alike:
  "parseResponse rt (Some \<lparr> RateResponse = Some \<lparr> RatedShipment = Some (One x) \<rparr> \<rparr>)
     = parseResponse rt (Some \<lparr> RateResponse = Some \<lparr> RatedShipment = Some (Many [x]) \<rparr> \<rparr>)
   \<and> parseResponse rt (Some \<lparr> RateResponse = Some \<lparr> RatedShipment = Some (One x) \<rparr> \<rparr>)
     = Inr [mapFromUpsRatedShipment rt x]"
  by (simp add: parseResponse_def toArray_def Array_sort_def)

text \<open>
  Claim C9, as the code has it. For a service code that is not the name of a member of
  \<^verbatim>\<open>Object.prototype\<close>, the service name of a mapped quote is the entry of the
  display-name table for the code; without an entry, the description echoed by the
  carrier; without either, \<^verbatim>\<open>UPS Service\<close> followed by the code.
\<close>

theorem serviceName_resolution:
  assumes "Code (Service rated) \<notin> set Object_prototype_members"
  shows "(\<forall>n. map_of UPS_SERVICE_NAMES (Code (Service rated)) = Some n
        \<longrightarrow> serviceName (mapFromUpsRatedShipment rt rated) = Plain n)
   \<and> (\<forall>d. map_of UPS_SERVICE_NAMES (Code (Service rated)) = None
          \<and> Description (Service rated) = Some d
        \<longrightarrow> serviceName (mapFromUpsRatedShipment rt rated) = Plain d)
   \<and> (map_of UPS_SERVICE_NAMES (Code (Service rated)) = None
          \<and> Description (Service rated) = None
        \<longrightarrow> serviceName (mapFromUpsRatedShipment rt rated)
              = Plain (''UPS Service '' @ Code (Service rated)))"
  using assms by (simp add: mapFromUpsRatedShipment_def object_get_def Let_def)

lemma serviceName_inherited:
  assumes "Code (Service rated) \<in> set Object_prototype_members"
  shows "serviceName (mapFromUpsRatedShipment rt rated) = Inherited (Code (Service rated))"
proof -
  have "map_of UPS_SERVICE_NAMES (Code (Service rated)) = None"
    using assms by (auto simp: UPS_SERVICE_NAMES_def Object_prototype_members_def)
  then show ?thesis using assms
    by (simp add: mapFromUpsRatedShipment_def object_get_def Let_def)
qed

section \<open>Sorted results\<close>





section \<open>The theorems at the sample data\<close>











lemma sample_request_valid: "validateRequest sample_runtime sample_request = Inr ()"
  by (simp add: validateRequest_def RateRequestSchema_def AddressSchema_def PackageSchema_def
        PackageDimensionsSchema_def PackageWeightSchema_def check_def indexed_def
        sample_request_def sample_address_def sample_package_def)












theorem serviceName_resolution_witness:
  "''03'' \<notin> set Object_prototype_members
   \<and> ''99'' \<notin> set Object_prototype_members
   \<and> serviceName (mapFromUpsRatedShipment sample_runtime
                  (sample_shipment ''03'' (Some ''Ground'') ''15.50'')) = Plain ''UPS Ground''
   \<and> serviceName (mapFromUpsRatedShipment sample_runtime
                  (sample_shipment ''99'' (Some ''UPS Special'') ''15.50'')) = Plain ''UPS Special''
   \<and> serviceName (mapFromUpsRatedShipment sample_runtime
                  (sample_shipment ''99'' None ''15.50'')) = Plain ''UPS Service 99''"
proof -
  have n1: "''03'' \<notin> set Object_prototype_members" and n2: "''99'' \<notin> set Object_prototype_members"
    by (simp_all add: Object_prototype_members_def)
  have c1: "Code (Service (sample_shipment ''03'' d v)) = ''03''"
    and c2: "Code (Service (sample_shipment ''99'' d v)) = ''99''"
    and d2: "Description (Service (sample_shipment ''99'' d v)) = d" for d v
    by (simp_all add: sample_shipment_def)
  have t1: "map_of UPS_SERVICE_NAMES ''03'' = Some ''UPS Ground''"
    and t2: "map_of UPS_SERVICE_NAMES ''99'' = None"
    by (simp_all add: UPS_SERVICE_NAMES_def)
  have a: "serviceName (mapFromUpsRatedShipment sample_runtime
                  (sample_shipment ''03'' (Some ''Ground'') ''15.50'')) = Plain ''UPS Ground''"
    using serviceName_resolution[of "sample_shipment ''03'' (Some ''Ground'') ''15.50''" sample_runtime]
          n1 t1 by (simp add: c1)
  have b: "serviceName (mapFromUpsRatedShipment sample_runtime
                  (sample_shipment ''99'' (Some ''UPS Special'') ''15.50'')) = Plain ''UPS Special''"
    using serviceName_resolution[of "sample_shipment ''99'' (Some ''UPS Special'') ''15.50''" sample_runtime]
          n2 t2 by (simp add: c2 d2)
  have c: "serviceName (mapFromUpsRatedShipment sample_runtime
                  (sample_shipment ''99'' None ''15.50'')) = Plain ''UPS Service 99''"
    using serviceName_resolution[of "sample_shipment ''99'' None ''15.50''" sample_runtime]
          n2 t2 by (simp add: c2 d2)
  show ?thesis using n1 n2 a b c by blast
qed

text \<open>
  Claim C9 as the specification words it synthesizes \<^verbatim>\<open>Service 99\<close> for the
  code 99, which the table does not have, when the carrier echoes no description. The
  code gives another name.
\<close>

theorem serviceName_synthesized_counterexample:
  "map_of UPS_SERVICE_NAMES (Code (Service (sample_shipment ''99'' None ''15.50''))) = None
   \<and> Description (Service (sample_shipment ''99'' None ''15.50'')) = None
   \<and> serviceName (mapFromUpsRatedShipment sample_runtime (sample_shipment ''99'' None ''15.50''))
       \<noteq> Plain ''Service 99''"
  by (simp add: UPS_SERVICE_NAMES_def sample_shipment_def mapFromUpsRatedShipment_def Let_def
        object_get_def Object_prototype_members_def)

theorem invalid_request_raises_before_any_call_witness:
  "length (packages (sample_request\<lparr>packages := []\<rparr>)) = 0
   \<and> RateRequestSchema sample_runtime (sample_request\<lparr>packages := []\<rparr>) \<noteq> []
   \<and> (\<exists>d. getQuotes sample_runtime sample_ups_registry (sample_request\<lparr>packages := []\<rparr>)
              new_UpsHttpClient = (Inl (CarrierError d), new_UpsHttpClient, [])
          \<and> code d = VALIDATION_ERROR)"
proof -
  have z: "length (packages (sample_request\<lparr>packages := []\<rparr>)) = 0" by simp
  note t = invalid_request_raises_before_any_call[of sample_runtime
             "sample_request\<lparr>packages := []\<rparr>" sample_ups_registry new_UpsHttpClient]
  have issues: "RateRequestSchema sample_runtime (sample_request\<lparr>packages := []\<rparr>) \<noteq> []"
    using t z by blast
  then show ?thesis using t z by blast
qed

lemma sample_mixed_registry_wf: "wf_registry sample_mixed_registry"
  by (simp add: wf_registry_def sample_mixed_registry_def sample_ups_provider_def
        sample_failing_provider_def sample_label_provider_def)

lemma sample_empty_carriers_valid:
  "validateRequest sample_runtime (sample_request\<lparr>carriers := Some []\<rparr>) = Inr ()"
  by (simp add: validateRequest_carriers sample_request_valid)

theorem empty_carriers_means_all_rate_providers_witness:
  "validateRequest sample_runtime (sample_request\<lparr>carriers := Some []\<rparr>) = Inr ()
   \<and> carriers (sample_request\<lparr>carriers := Some []\<rparr>) = Some []
   \<and> wf_registry sample_mixed_registry
   \<and> map fst sample_mixed_registry = [DHL, UPS, FEDEX]
   \<and> resolveCarriers sample_mixed_registry (carriers (sample_request\<lparr>carriers := Some []\<rparr>))
       = [UPS, FEDEX]
   \<and> snd (snd (getQuotes sample_runtime sample_mixed_registry
                  (sample_request\<lparr>carriers := Some []\<rparr>) ())) = [UPS, FEDEX]"
proof -
  have e: "carriers (sample_request\<lparr>carriers := Some []\<rparr>) = Some []" by simp
  have all: "map fst sample_mixed_registry = [DHL, UPS, FEDEX]"
    by (simp add: sample_mixed_registry_def)
  have ids: "map (\<lambda>(k, p). carrierId p)
               (filter (\<lambda>(k, p). OP_rate \<in> set (supportedOperations p)) sample_mixed_registry)
               = [UPS, FEDEX]"
    by (simp add: sample_mixed_registry_def sample_ups_provider_def
          sample_failing_provider_def sample_label_provider_def)
  note t = empty_carriers_means_all_rate_providers[OF sample_empty_carriers_valid e
             sample_mixed_registry_wf, of "()"]
  have a: "resolveCarriers sample_mixed_registry (carriers (sample_request\<lparr>carriers := Some []\<rparr>))
       = [UPS, FEDEX]"
    using t[THEN conjunct1] ids by simp
  have b: "snd (snd (getQuotes sample_runtime sample_mixed_registry
                  (sample_request\<lparr>carriers := Some []\<rparr>) ())) = [UPS, FEDEX]"
    using t[THEN conjunct2, THEN conjunct2, THEN conjunct2, THEN conjunct1] ids by simp
  show ?thesis using sample_empty_carriers_valid e sample_mixed_registry_wf all a b by blast
qed








end
